theory Spec2Isabelle
  imports Complex_Main
begin

section \<open>The retry decorator of \<open>lazykit/tool_kit.py\<close>\<close>

text \<open>
  The theory embeds \<^verbatim>\<open>DEFAULT_RETRY_CONFIG\<close>, \<^verbatim>\<open>setup_retry\<close>, \<^verbatim>\<open>retry\<close> and the
  \<^verbatim>\<open>wrapper\<close> closure that \<^verbatim>\<open>retry\<close> builds (lines 14 and 107 to 160 of
  \<^verbatim>\<open>src/lazykit/tool_kit.py\<close>).

  Python's unbounded \<^verbatim>\<open>int\<close> is \<^typ>\<open>int\<close>. A duration (\<^verbatim>\<open>int | float\<close>) is a
  \<^typ>\<open>real\<close>, the number the \<^verbatim>\<open>int\<close> or the finite \<^verbatim>\<open>float\<close> stands for. The product
  of \<^verbatim>\<open>current_delay *= backoff\<close> is the one Python computes (exact on integers,
  rounded to a double on floats) and is a parameter of the surroundings, as is the
  range of durations that \<^verbatim>\<open>time.sleep\<close> accepts.
\<close>

subsection \<open>Exceptions\<close>

text \<open>
  An exception class is \<^verbatim>\<open>BaseException\<close> or a named direct subclass of another
  class (single inheritance). \<^verbatim>\<open>except exceptions as e\<close> with a tuple of classes
  catches \<^verbatim>\<open>e\<close> when \<^verbatim>\<open>type(e)\<close> is a subclass of one of them.
\<close>

datatype exc_class = BaseException | Subclass string exc_class

abbreviation Exception :: exc_class where
  "Exception \<equiv> Subclass ''Exception'' BaseException"

abbreviation KeyboardInterrupt :: exc_class where
  "KeyboardInterrupt \<equiv> Subclass ''KeyboardInterrupt'' BaseException"

abbreviation SystemExit :: exc_class where
  "SystemExit \<equiv> Subclass ''SystemExit'' BaseException"

abbreviation ValueError :: exc_class where
  "ValueError \<equiv> Subclass ''ValueError'' Exception"

abbreviation OSError :: exc_class where
  "OSError \<equiv> Subclass ''OSError'' Exception"

abbreviation OverflowError :: exc_class where
  "OverflowError \<equiv> Subclass ''OverflowError'' (Subclass ''ArithmeticError'' Exception)"

fun issubclass :: "exc_class \<Rightarrow> exc_class \<Rightarrow> bool" where
  "issubclass BaseException d = (d = BaseException)"
| "issubclass (Subclass n b) d = (d = Subclass n b \<or> issubclass b d)"

text \<open>An exception object: its class and the text of its argument.\<close>

datatype exn = Exn (class_of: exc_class) (args_of: string)

definition isinstance :: "exn \<Rightarrow> exc_class list \<Rightarrow> bool" where
  "isinstance e classes = list_ex (issubclass (class_of e)) classes"

subsection \<open>Truth values of optional numbers\<close>

text \<open>
  \<^verbatim>\<open>None\<close>, \<^verbatim>\<open>0\<close> and \<^verbatim>\<open>0.0\<close> are falsy, every other number is truthy.
  \<^verbatim>\<open>x or y\<close> is \<^verbatim>\<open>x\<close> when \<^verbatim>\<open>x\<close> is truthy and \<^verbatim>\<open>y\<close> otherwise. The tests
  \<^verbatim>\<open>alert_threshold and ...\<close> and \<^verbatim>\<open>max_duration and ...\<close> of the wrapper are written
  out in the same way below.
\<close>

definition py_or :: "'a::zero option \<Rightarrow> 'a \<Rightarrow> 'a" where
  "py_or x y = (case x of None \<Rightarrow> y | Some v \<Rightarrow> if v \<noteq> 0 then v else y)"

subsection \<open>The global default configuration\<close>

text \<open>
  \<^verbatim>\<open>DEFAULT_RETRY_CONFIG = {'max_retries': 3, 'delay': 1.0}\<close> is a module-level
  dictionary with two fixed keys.
\<close>

record retry_config =
  cfg_max_retries :: int
  cfg_delay :: real

definition DEFAULT_RETRY_CONFIG :: retry_config where
  "DEFAULT_RETRY_CONFIG = \<lparr>cfg_max_retries = 3, cfg_delay = 1\<rparr>"

text \<open>
  \<^verbatim>\<open>def setup_retry(max_retries: int = 3, delay: int | float = 1)\<close> stores both
  arguments in the dictionary. An argument the caller leaves out is \<open>None\<close> here
  and takes the default of the signature.
\<close>

definition setup_retry :: "int option \<Rightarrow> real option \<Rightarrow> retry_config \<Rightarrow> retry_config" where
  "setup_retry max_retries_arg delay_arg cfg =
     cfg\<lparr>cfg_max_retries := (case max_retries_arg of None \<Rightarrow> 3 | Some m \<Rightarrow> m),
         cfg_delay := (case delay_arg of None \<Rightarrow> 1 | Some d \<Rightarrow> d)\<rparr>"

subsection \<open>Building a wrapper: \<^verbatim>\<open>retry\<close>\<close>

text \<open>
  The keyword arguments of \<^verbatim>\<open>retry\<close>. For \<open>arg_max_retries\<close>, \<open>arg_delay\<close>,
  \<open>arg_max_duration\<close> and \<open>arg_alert_threshold\<close>, \<open>None\<close> is Python's \<^verbatim>\<open>None\<close>
  (also the default of the signature). For \<open>arg_backoff\<close> and \<open>arg_exceptions\<close>,
  \<open>None\<close> means that the caller leaves the argument out, and the signature's default
  (\<^verbatim>\<open>2.0\<close>, \<^verbatim>\<open>(Exception,)\<close>) applies.
\<close>

record retry_args =
  arg_max_retries :: "int option"
  arg_delay :: "real option"
  arg_backoff :: "real option"
  arg_exceptions :: "exc_class list option"
  arg_max_duration :: "real option"
  arg_alert_threshold :: "int option"

definition no_args :: retry_args where
  "no_args = \<lparr>arg_max_retries = None, arg_delay = None, arg_backoff = None,
     arg_exceptions = None, arg_max_duration = None, arg_alert_threshold = None\<rparr>"

text \<open>
  The variables the closure \<^verbatim>\<open>wrapper\<close> captures, as they stand when \<^verbatim>\<open>retry\<close> returns
  the decorator: \<^verbatim>\<open>max_retries\<close> and \<^verbatim>\<open>delay\<close> after lines 135 and 136, the other
  parameters as passed.
\<close>

record policy =
  max_retries :: int
  delay :: real
  backoff :: real
  exceptions :: "exc_class list"
  max_duration :: "real option"
  alert_threshold :: "int option"

definition retry :: "retry_args \<Rightarrow> retry_config \<Rightarrow> policy" where
  "retry a cfg =
     \<lparr>max_retries = py_or (arg_max_retries a) (cfg_max_retries cfg),
      delay = py_or (arg_delay a) (cfg_delay cfg),
      backoff = (case arg_backoff a of None \<Rightarrow> 2 | Some b \<Rightarrow> b),
      exceptions = (case arg_exceptions a of None \<Rightarrow> [Exception] | Some cs \<Rightarrow> cs),
      max_duration = arg_max_duration a,
      alert_threshold = arg_alert_threshold a\<rparr>"

subsection \<open>Running a wrapper\<close>

text \<open>
  What one call of the wrapper meets. The loop invokes \<^verbatim>\<open>func(*args, **kwargs)\<close>
  once in each iteration it enters, so \<open>func env i\<close> is the outcome of the call made in
  iteration \<open>i\<close>: \<open>Inl e\<close> when it raises \<open>e\<close>, \<open>Inr v\<close> when it returns \<open>v\<close>.
  \<open>time_time env 0\<close> is the reading of \<^verbatim>\<open>time.time()\<close> at line 141, and
  \<open>time_time env i\<close> the reading taken at line 151 in iteration \<open>i\<close>.
  \<open>multiply env x y\<close> is the value of Python's \<^verbatim>\<open>x * y\<close> on the numbers at hand: the
  exact product of two integers, the product rounded to a double as soon as one factor
  is a float. \<open>sleep_max env\<close> is the longest duration \<^verbatim>\<open>time.sleep\<close> converts to the
  platform's time type (about \<open>9.2e9\<close> seconds where that type counts nanoseconds in
  64 bits).
\<close>

record 'v environment =
  func :: "int \<Rightarrow> exn + 'v"
  time_time :: "int \<Rightarrow> real"
  multiply :: "real \<Rightarrow> real \<Rightarrow> real"
  sleep_max :: real

text \<open>
  The three messages passed to \<^verbatim>\<open>log_func\<close> (fixed Chinese sentences in the source,
  each with a prefix of its own): the warning of line 150 with \<^verbatim>\<open>alert_threshold\<close>,
  the termination message of line 152, and the retry message of line 154 with
  \<^verbatim>\<open>attempt\<close> and \<^verbatim>\<open>e\<close>. \<^verbatim>\<open>log_func\<close> is taken to return normally.
\<close>

datatype log_message = AlertWarning int | DurationExceeded | Retrying int exn

text \<open>
  What the wrapper does to its surroundings, in order; each event is paired with the
  iteration \<^verbatim>\<open>attempt\<close> that performs it.
\<close>

datatype event = Invoked | Logged log_message | Slept real

type_synonym trace = "(int \<times> event) list"

text \<open>
  \<^verbatim>\<open>time.sleep(secs)\<close> first converts \<^verbatim>\<open>secs\<close> to the platform's time type and raises
  \<^verbatim>\<open>OverflowError\<close> when it does not fit; it then raises \<^verbatim>\<open>ValueError\<close> for a negative
  duration. Otherwise it blocks and returns (\<open>None\<close>: nothing is raised).
\<close>

definition time_sleep :: "'v environment \<Rightarrow> real \<Rightarrow> exn option" where
  "time_sleep env secs =
     (if sleep_max env < \<bar>secs\<bar>
      then Some (Exn OverflowError ''timestamp too large to convert to C _PyTime_t'')
      else if secs < 0 then Some (Exn ValueError ''sleep length must be non-negative'')
      else None)"

text \<open>Line 149 and 150: the warning, when \<^verbatim>\<open>alert_threshold\<close> is truthy and reached.\<close>

definition alert_events :: "policy \<Rightarrow> int \<Rightarrow> trace" where
  "alert_events p attempt =
     (case alert_threshold p of
        None \<Rightarrow> []
      | Some a \<Rightarrow> if a \<noteq> 0 \<and> a \<le> attempt then [(attempt, Logged (AlertWarning a))] else [])"

text \<open>Line 151: \<^verbatim>\<open>max_duration and (time.time() - start_time) >= max_duration\<close>.\<close>

definition duration_exceeded :: "policy \<Rightarrow> 'v environment \<Rightarrow> real \<Rightarrow> int \<Rightarrow> bool" where
  "duration_exceeded p env start_time attempt =
     (case max_duration p of
        None \<Rightarrow> False
      | Some m \<Rightarrow> m \<noteq> 0 \<and> m \<le> time_time env attempt - start_time)"

text \<open>
  The \<^verbatim>\<open>for\<close> loop of lines 143 to 156 over the attempts still to make. The result
  is what the wrapper does in the end (\<open>Inl e\<close>: raises \<open>e\<close>; \<open>Inr (Some v)\<close>: returns
  the operation's value; \<open>Inr None\<close>: falls off the loop and returns \<^verbatim>\<open>None\<close>) and the
  events of these iterations.
\<close>

fun attempts ::
  "policy \<Rightarrow> 'v environment \<Rightarrow> real \<Rightarrow> real \<Rightarrow> int list \<Rightarrow> (exn + 'v option) \<times> trace" where
  "attempts p env start_time current_delay [] = (Inr None, [])"
| "attempts p env start_time current_delay (attempt # rest) =
     (case func env attempt of
        Inr v \<Rightarrow> (Inr (Some v), [(attempt, Invoked)])
      | Inl e \<Rightarrow>
          if \<not> isinstance e (exceptions p) then (Inl e, [(attempt, Invoked)])
          else if attempt = max_retries p then (Inl e, [(attempt, Invoked)])
          else if duration_exceeded p env start_time attempt
          then (Inl e, (attempt, Invoked) # alert_events p attempt
                  @ [(attempt, Logged DurationExceeded)])
          else
            (case time_sleep env current_delay of
               Some sleep_error \<Rightarrow>
                 (Inl sleep_error, (attempt, Invoked) # alert_events p attempt
                    @ [(attempt, Logged (Retrying attempt e))])
             | None \<Rightarrow>
                 (case attempts p env start_time (multiply env current_delay (backoff p)) rest of
                    (result, later) \<Rightarrow>
                      (result, (attempt, Invoked) # alert_events p attempt
                         @ [(attempt, Logged (Retrying attempt e)), (attempt, Slept current_delay)]
                         @ later))))"

text \<open>
  \<^verbatim>\<open>wrapper\<close>: \<^verbatim>\<open>start_time = time.time()\<close>, \<^verbatim>\<open>current_delay = delay\<close>, then the loop
  over \<^verbatim>\<open>range(1, max_retries + 1)\<close>.
\<close>

definition wrapper :: "policy \<Rightarrow> 'v environment \<Rightarrow> (exn + 'v option) \<times> trace" where
  "wrapper p env = attempts p env (time_time env 0) (delay p) [1..max_retries p]"

text \<open>
  The value of \<^verbatim>\<open>current_delay\<close> after \<open>i\<close> executions of line 156, when it is \<open>d\<close>
  before the first of them: \<open>d\<close>, then \<^verbatim>\<open>d * backoff\<close>, then \<^verbatim>\<open>(d * backoff) * backoff\<close>,
  each product as Python computes it.
\<close>

primrec delay_after :: "'v environment \<Rightarrow> policy \<Rightarrow> real \<Rightarrow> nat \<Rightarrow> real" where
  "delay_after env p d 0 = d"
| "delay_after env p d (Suc i) = multiply env (delay_after env p d i) (backoff p)"

subsection \<open>Observations on a trace\<close>

fun is_warning :: "event \<Rightarrow> bool" where
  "is_warning (Logged (AlertWarning a)) = True"
| "is_warning ev = False"

fun slept :: "event \<Rightarrow> real list" where
  "slept (Slept secs) = [secs]"
| "slept ev = []"

fun logged :: "event \<Rightarrow> log_message list" where
  "logged (Logged m) = [m]"
| "logged ev = []"

definition invocations :: "trace \<Rightarrow> nat" where
  "invocations tr = length (filter (\<lambda>x. snd x = Invoked) tr)"

definition sleeps :: "trace \<Rightarrow> real list" where
  "sleeps tr = concat (map (\<lambda>x. slept (snd x)) tr)"

definition messages :: "trace \<Rightarrow> log_message list" where
  "messages tr = concat (map (\<lambda>x. logged (snd x)) tr)"

subsection \<open>The module's state\<close>

text \<open>
  The dictionary \<^verbatim>\<open>DEFAULT_RETRY_CONFIG\<close> together with the closures of the wrappers
  built so far. \<^verbatim>\<open>setup_retry\<close> writes the dictionary, \<^verbatim>\<open>retry\<close> reads it and adds
  a closure, and a call of a wrapper reads its closure.
\<close>

record module_state =
  config :: retry_config
  closures :: "policy list"

definition initial_state :: module_state where
  "initial_state = \<lparr>config = DEFAULT_RETRY_CONFIG, closures = []\<rparr>"

definition do_setup_retry :: "int option \<times> real option \<Rightarrow> module_state \<Rightarrow> module_state" where
  "do_setup_retry args s = s\<lparr>config := setup_retry (fst args) (snd args) (config s)\<rparr>"

definition do_retry :: "retry_args \<Rightarrow> module_state \<Rightarrow> module_state" where
  "do_retry a s = s\<lparr>closures := closures s @ [retry a (config s)]\<rparr>"

definition call_wrapper :: "nat \<Rightarrow> 'v environment \<Rightarrow> module_state \<Rightarrow> ((exn + 'v option) \<times> trace) option" where
  "call_wrapper h env s =
     (if h < length (closures s) then Some (wrapper (closures s ! h) env) else None)"

subsection \<open>Sample runs\<close>

text \<open>
  Concrete policies and surroundings on which the properties below are exercised. The
  clock starts at 0 and reads the time slept so far when the delays are 1, 2, 4 and so
  on; the products are exact (they are, in doubles, for the numbers used here), and
  \<^verbatim>\<open>time.sleep\<close> accepts up to \<open>2^63 - 1\<close> nanoseconds.
\<close>

definition exact_platform :: "(int \<Rightarrow> exn + 'v) \<Rightarrow> 'v environment" where
  "exact_platform f =
     \<lparr>func = f, time_time = (\<lambda>i. 2 ^ nat (i - 1) - 1), multiply = (\<lambda>x y. x * y),
      sleep_max = 9223372036854775807 / 1000000000\<rparr>"

definition always_failing :: "unit environment" where
  "always_failing = exact_platform (\<lambda>i. Inl (Exn OSError ''unreachable''))"

definition fails_twice :: "string environment" where
  "fails_twice =
     exact_platform (\<lambda>i. if i < 3 then Inl (Exn ValueError ''busy'') else Inr ''done'')"

definition interrupted :: "unit environment" where
  "interrupted = exact_platform (\<lambda>i. Inl (Exn KeyboardInterrupt []))"


definition alerting :: retry_args where
  "alerting = no_args\<lparr>arg_max_retries := Some 5, arg_alert_threshold := Some 2\<rparr>"

definition fatal_second :: "unit environment" where
  "fatal_second =
     exact_platform (\<lambda>i. if i < 2 then Inl (Exn OSError ''unreachable'')
                             else Inl (Exn ValueError ''malformed''))"


section \<open>Properties\<close>

subsection \<open>Observations of joined traces and of the warning\<close>

lemma invocations_append: "invocations (xs @ ys) = invocations xs + invocations ys"
  by (simp add: invocations_def)

lemma sleeps_append: "sleeps (xs @ ys) = sleeps xs @ sleeps ys"
  by (simp add: sleeps_def)

lemma messages_append: "messages (xs @ ys) = messages xs @ messages ys"
  by (simp add: messages_def)

lemma invocations_alert: "invocations (alert_events p i) = 0"
  by (simp add: invocations_def alert_events_def split: option.splits)

lemma sleeps_alert: "sleeps (alert_events p i) = []"
  by (auto simp: sleeps_def alert_events_def split: option.splits)

lemma fst_alert: "x \<in> set (alert_events p i) \<Longrightarrow> fst x = i"
  by (auto simp: alert_events_def split: option.splits if_splits)




lemma filter_warnings_alert [simp]:
  "filter (\<lambda>x. \<not> is_warning (snd x)) (alert_events p i) = []"
  by (simp add: alert_events_def split: option.splits)

subsection \<open>One iteration and a run of iterations\<close>

text \<open>
  An iteration either ends the loop, and then all its events are its own, or it is
  retried: the operation raised a caught exception, the attempt is not the last one,
  the time is not up and the sleep is accepted.
\<close>

lemma attempts_retry_step:
  assumes "func env i = Inl e" and "isinstance e (exceptions p)" and "i \<noteq> max_retries p"
    and "\<not> duration_exceeded p env st i" and "time_sleep env cd = None"
  shows "attempts p env st cd (i # rest) =
    (fst (attempts p env st (multiply env cd (backoff p)) rest),
     (i, Invoked) # alert_events p i @ [(i, Logged (Retrying i e)), (i, Slept cd)]
       @ snd (attempts p env st (multiply env cd (backoff p)) rest))"
  using assms by (simp split: prod.splits)

lemma attempts_Cons_cases:
  obtains (stop) r evs where "attempts p env st cd (i # rest) = (r, evs)"
      and "\<forall>x \<in> set evs. fst x = i"
  | (again) e where "func env i = Inl e" and "isinstance e (exceptions p)"
      and "i \<noteq> max_retries p" and "\<not> duration_exceeded p env st i"
      and "time_sleep env cd = None"
proof (cases "func env i")
  case (Inr v)
  then show ?thesis by (intro stop [of "Inr (Some v)" "[(i, Invoked)]"]) simp_all
next
  case (Inl e)
  show ?thesis
  proof (cases "isinstance e (exceptions p) \<and> i \<noteq> max_retries p")
    case False
    with Inl show ?thesis by (intro stop [of "Inl e" "[(i, Invoked)]"]) auto
  next
    case True
    show ?thesis
    proof (cases "duration_exceeded p env st i")
      case exceeded: True
      with True Inl show ?thesis
        by (intro stop [of "Inl e"
              "(i, Invoked) # alert_events p i @ [(i, Logged DurationExceeded)]"])
          (auto dest: fst_alert)
    next
      case False
      show ?thesis
      proof (cases "time_sleep env cd")
        case (Some sleep_error)
        with False True Inl show ?thesis
          by (intro stop [of "Inl sleep_error"
                "(i, Invoked) # alert_events p i @ [(i, Logged (Retrying i e))]"])
            (auto dest: fst_alert)
      next
        case None
        with False True Inl show ?thesis
          by (intro again [of e]) simp_all
      qed
    qed
  qed
qed

lemma attempts_tags: "x \<in> set (snd (attempts p env st cd xs)) \<Longrightarrow> fst x \<in> set xs"
proof (induction xs arbitrary: cd)
  case Nil
  then show ?case by simp
next
  case (Cons i rest)
  from Cons.IH [of "multiply env cd (backoff p)"]
  have "x \<in> set (snd (attempts p env st (multiply env cd (backoff p)) rest))
      \<Longrightarrow> fst x \<in> set rest" .
  with Cons.prems show ?case
    by (auto split: sum.splits if_splits prod.splits option.splits dest: fst_alert)
qed

lemma first_attempt_made:
  "1 \<le> max_retries p \<Longrightarrow> (1, Invoked) \<in> set (snd (wrapper p env))"
  by (auto simp: wrapper_def upto_rec1 [of 1]
      split: sum.splits prod.splits option.splits)

text \<open>
  The iterations before attempt \<open>k\<close>, when each of them is retried: one invocation and
  one sleep each, each sleep the product of the one before and \<^verbatim>\<open>backoff\<close>. The first lemma takes
  the failures as given, the second one takes that attempt \<open>j\<close> is made.
\<close>

lemma delay_after_shift:
  "delay_after env p (multiply env d (backoff p)) i = delay_after env p d (Suc i)"
  by (induction i) simp_all


lemma upt_Suc_shift: "[0..<Suc m] = 0 # map Suc [0..<m]"
  by (simp add: map_Suc_upt upt_conv_Cons)


lemma attempts_reach:
  assumes "(j, Invoked) \<in> set (snd (attempts p env st cd [i..n]))"
  shows "\<exists>pre. attempts p env st cd [i..n] =
           (fst (attempts p env st (delay_after env p cd (nat (j - i))) [j..n]),
            pre @ snd (attempts p env st (delay_after env p cd (nat (j - i))) [j..n]))
         \<and> invocations pre = nat (j - i)
         \<and> sleeps pre = map (delay_after env p cd) [0..<nat (j - i)]
         \<and> (\<forall>x \<in> set pre. i \<le> fst x \<and> fst x < j)"
proof -
  from attempts_tags [OF assms] have "i \<le> j" and jn: "j \<le> n" by simp_all
  then show ?thesis
    using assms
  proof (induction "nat (j - i)" arbitrary: i cd)
    case 0
    then have "j = i" by simp
    then show ?case
      by (intro exI [of _ "[]"]) (simp add: invocations_def sleeps_def)
  next
    case (Suc m)
    let ?next = "multiply env cd (backoff p)"
    from Suc.hyps(2) have ij: "i < j" and m: "m = nat (j - (i + 1))" by linarith+
    have rng: "[i..n] = i # [i + 1..n]"
      using ij Suc.prems(2) by (simp add: upto_rec1)
    show ?case
    proof (cases rule: attempts_Cons_cases [of p env st cd i "[i + 1..n]"])
      case (stop r evs)
      with Suc.prems(3) ij show ?thesis
        unfolding rng by auto
    next
      case (again e)
      let ?round = "(i, Invoked) # alert_events p i @ [(i, Logged (Retrying i e)), (i, Slept cd)]"
      have step: "attempts p env st cd [i..n] =
          (fst (attempts p env st ?next [i + 1..n]),
           ?round @ snd (attempts p env st ?next [i + 1..n]))"
        unfolding rng attempts_retry_step [OF again] by simp
      have "(j, Invoked) \<notin> set ?round"
        using ij by (auto dest: fst_alert)
      with Suc.prems(3) have later: "(j, Invoked) \<in> set (snd (attempts p env st ?next [i + 1..n]))"
        unfolding step by auto
      have nk: "nat (j - i) = Suc (nat (j - (i + 1)))" using ij by linarith
      let ?rest = "attempts p env st (delay_after env p cd (nat (j - i))) [j..n]"
      have start: "delay_after env p ?next (nat (j - (i + 1))) = delay_after env p cd (nat (j - i))"
        unfolding nk by (rule delay_after_shift)
      have ij1: "i + 1 \<le> j" using ij by simp
      from Suc.hyps(1) [OF m ij1 Suc.prems(2) later]
      obtain pre where pre:
        "attempts p env st ?next [i + 1..n] = (fst ?rest, pre @ snd ?rest)"
        "invocations pre = nat (j - (i + 1))"
        "sleeps pre = map (delay_after env p ?next) [0..<nat (j - (i + 1))]"
        "\<forall>x \<in> set pre. i + 1 \<le> fst x \<and> fst x < j"
        unfolding start by blast
      have whole: "attempts p env st cd [i..n] = (fst ?rest, (?round @ pre) @ snd ?rest)"
        unfolding step pre(1) by simp
      have "invocations ?round = 1"
        using invocations_alert [of p i] by (simp add: invocations_def)
      then have inv: "invocations (?round @ pre) = nat (j - i)"
        unfolding nk invocations_append pre(2) by simp
      have "sleeps ?round = [cd]"
        using sleeps_alert [of p i] by (simp add: sleeps_def)
      then have sl: "sleeps (?round @ pre) = map (delay_after env p cd) [0..<nat (j - i)]"
        unfolding nk upt_Suc_shift sleeps_append pre(3)
        by (simp add: delay_after_shift del: delay_after.simps(2))
      have tags: "\<forall>x \<in> set (?round @ pre). i \<le> fst x \<and> fst x < j"
        using pre(4) ij by (auto dest: fst_alert)
      from whole inv sl tags show ?thesis by blast
    qed
  qed
qed




lemma attempts_not_caught:
  assumes "func env j = Inl e" and "\<not> isinstance e (exceptions p)" and "j \<le> n"
  shows "attempts p env st cd [j..n] = (Inl e, [(j, Invoked)])"
  using assms by (simp add: upto_rec1)


subsection \<open>The sample runs, evaluated\<close>

lemma upto_1_5: "[1..5] = [1, 2, 3, 4, 5]"
  by (simp add: upto.simps)


lemma alerting_policy:
  "retry alerting DEFAULT_RETRY_CONFIG =
     \<lparr>max_retries = 5, delay = 1, backoff = 2, exceptions = [Exception],
      max_duration = None, alert_threshold = Some 2\<rparr>"
  by (simp add: retry_def alerting_def no_args_def DEFAULT_RETRY_CONFIG_def py_or_def)


lemma alerting_run:
  "wrapper (retry alerting DEFAULT_RETRY_CONFIG) always_failing =
    (Inl (Exn OSError ''unreachable''),
     [(1, Invoked), (1, Logged (Retrying 1 (Exn OSError ''unreachable''))), (1, Slept 1),
      (2, Invoked), (2, Logged (AlertWarning 2)),
      (2, Logged (Retrying 2 (Exn OSError ''unreachable''))), (2, Slept 2),
      (3, Invoked), (3, Logged (AlertWarning 2)),
      (3, Logged (Retrying 3 (Exn OSError ''unreachable''))), (3, Slept 4),
      (4, Invoked), (4, Logged (AlertWarning 2)),
      (4, Logged (Retrying 4 (Exn OSError ''unreachable''))), (4, Slept 8),
      (5, Invoked)])"
  by (simp add: alerting_policy wrapper_def always_failing_def exact_platform_def isinstance_def alert_events_def
      duration_exceeded_def time_sleep_def upto_1_5)


subsection \<open>Exhausted retries\<close>




subsection \<open>Success after failures\<close>




subsection \<open>Exceptions that are not caught\<close>

text \<open>
  C3: an exception whose class is not caught by \<^verbatim>\<open>exceptions\<close> propagates at once
  and untouched. Whenever attempt \<open>j\<close> is made and the operation raises such an
  exception in it, the wrapped call raises that exception, attempt \<open>j\<close> is the last
  invocation and consists of the invocation alone. When this is the first attempt
  (which is made as soon as \<^verbatim>\<open>max_retries >= 1\<close>, see \<open>first_attempt_made\<close>), the
  operation is invoked exactly once, and nothing is slept nor reported.
\<close>

theorem non_retryable_error_propagates_at_once:
  assumes "(j, Invoked) \<in> set (snd (wrapper p env))"
    and "func env j = Inl e" and "\<not> isinstance e (exceptions p)"
  shows "fst (wrapper p env) = Inl e
    \<and> invocations (snd (wrapper p env)) = nat j
    \<and> filter (\<lambda>x. fst x = j) (snd (wrapper p env)) = [(j, Invoked)]
    \<and> last (snd (wrapper p env)) = (j, Invoked)
    \<and> (j = 1 \<longrightarrow> wrapper p env = (Inl e, [(1, Invoked)])
          \<and> sleeps (snd (wrapper p env)) = [] \<and> messages (snd (wrapper p env)) = [])"
proof -
  let ?n = "max_retries p"
  from attempts_tags [OF assms(1) [unfolded wrapper_def]] have j: "1 \<le> j" "j \<le> ?n" by simp_all
  have final: "attempts p env (time_time env 0) (delay_after env p (delay p) (nat (j - 1))) [j..?n] =
      (Inl e, [(j, Invoked)])"
    using assms(2,3) j(2) by (rule attempts_not_caught)
  from attempts_reach [OF assms(1) [unfolded wrapper_def]]
  obtain pre where pre:
    "wrapper p env = (Inl e, pre @ [(j, Invoked)])"
    "invocations pre = nat (j - 1)"
    "\<forall>x \<in> set pre. 1 \<le> fst x \<and> fst x < j"
    unfolding final wrapper_def by auto
  have "invocations (pre @ [(j, Invoked)]) = nat j"
    unfolding invocations_append pre(2) using j(1) by (simp add: invocations_def)
  moreover have "filter (\<lambda>x. fst x = j) pre = []"
    using pre(3) by (auto simp: filter_empty_conv)
  moreover have "pre = []" if "j = 1"
    using pre(3) that by (cases pre) auto
  ultimately show ?thesis
    by (simp add: pre(1) sleeps_def messages_def)
qed

theorem non_retryable_error_propagates_at_once_witness:
  "wrapper (retry (no_args\<lparr>arg_exceptions := Some [OSError]\<rparr>) DEFAULT_RETRY_CONFIG) fails_twice
     = (Inl (Exn ValueError ''busy''), [(1, Invoked)])
   \<and> fst (wrapper (retry (no_args\<lparr>arg_exceptions := Some [OSError]\<rparr>) DEFAULT_RETRY_CONFIG)
        fatal_second) = Inl (Exn ValueError ''malformed'')
   \<and> invocations (snd (wrapper (retry (no_args\<lparr>arg_exceptions := Some [OSError]\<rparr>)
        DEFAULT_RETRY_CONFIG) fatal_second)) = 2"
proof -
  let ?p = "retry (no_args\<lparr>arg_exceptions := Some [OSError]\<rparr>) DEFAULT_RETRY_CONFIG"
  have p: "?p = \<lparr>max_retries = 3, delay = 1, backoff = 2, exceptions = [OSError],
      max_duration = None, alert_threshold = None\<rparr>"
    by (simp add: retry_def no_args_def DEFAULT_RETRY_CONFIG_def py_or_def)
  have "1 \<le> max_retries ?p"
    by (simp add: p)
  then have a1: "(1, Invoked) \<in> set (snd (wrapper ?p fails_twice))"
    by (rule first_attempt_made)
  have a2: "func fails_twice 1 = Inl (Exn ValueError ''busy'')"
    and a3: "\<not> isinstance (Exn ValueError ''busy'') (exceptions ?p)"
    by (simp_all add: fails_twice_def exact_platform_def p isinstance_def)
  have b1: "(2, Invoked) \<in> set (snd (wrapper ?p fatal_second))"
    by (simp add: p wrapper_def fatal_second_def exact_platform_def isinstance_def alert_events_def
        duration_exceeded_def time_sleep_def upto.simps)
  have b2: "func fatal_second 2 = Inl (Exn ValueError ''malformed'')"
    and b3: "\<not> isinstance (Exn ValueError ''malformed'') (exceptions ?p)"
    by (simp_all add: fatal_second_def exact_platform_def p isinstance_def)
  from non_retryable_error_propagates_at_once [OF a1 a2 a3]
    non_retryable_error_propagates_at_once [OF b1 b2 b3]
  show ?thesis by simp
qed

subsection \<open>Resolving \<^verbatim>\<open>max_retries\<close> and \<^verbatim>\<open>delay\<close>\<close>

text \<open>
  C4: \<^verbatim>\<open>retry\<close> takes a falsy \<^verbatim>\<open>max_retries\<close> or \<^verbatim>\<open>delay\<close> (\<^verbatim>\<open>None\<close>, also by
  default, or an explicit 0) as absent and resolves it to the value that
  \<^verbatim>\<open>DEFAULT_RETRY_CONFIG\<close> holds when \<^verbatim>\<open>retry\<close> is called; any other value is taken
  as given.
\<close>

theorem falsy_override_takes_default:
  "(arg_max_retries a = None \<or> arg_max_retries a = Some 0 \<longrightarrow>
      max_retries (retry a cfg) = cfg_max_retries cfg)
   \<and> (\<forall>m. arg_max_retries a = Some m \<and> m \<noteq> 0 \<longrightarrow> max_retries (retry a cfg) = m)
   \<and> (arg_delay a = None \<or> arg_delay a = Some 0 \<longrightarrow> delay (retry a cfg) = cfg_delay cfg)
   \<and> (\<forall>d. arg_delay a = Some d \<and> d \<noteq> 0 \<longrightarrow> delay (retry a cfg) = d)
   \<and> closures (do_retry a s) = closures s @ [retry a (config s)]"
  by (auto simp: retry_def py_or_def do_retry_def)

theorem falsy_override_takes_default_witness:
  "max_retries (retry (no_args\<lparr>arg_max_retries := Some 0, arg_delay := Some 0\<rparr>)
      (setup_retry (Some 5) (Some (1 / 2)) DEFAULT_RETRY_CONFIG)) = 5
   \<and> delay (retry (no_args\<lparr>arg_max_retries := Some 0, arg_delay := Some 0\<rparr>)
      (setup_retry (Some 5) (Some (1 / 2)) DEFAULT_RETRY_CONFIG)) = 1 / 2
   \<and> max_retries (retry (no_args\<lparr>arg_max_retries := Some 7, arg_delay := Some 3\<rparr>)
      (setup_retry (Some 5) (Some (1 / 2)) DEFAULT_RETRY_CONFIG)) = 7
   \<and> delay (retry (no_args\<lparr>arg_max_retries := Some 7, arg_delay := Some 3\<rparr>)
      (setup_retry (Some 5) (Some (1 / 2)) DEFAULT_RETRY_CONFIG)) = 3"
proof -
  let ?cfg = "setup_retry (Some 5) (Some (1 / 2)) DEFAULT_RETRY_CONFIG"
  let ?zero = "no_args\<lparr>arg_max_retries := Some 0, arg_delay := Some 0\<rparr>"
  let ?given = "no_args\<lparr>arg_max_retries := Some 7, arg_delay := Some 3\<rparr>"
  have cfg: "cfg_max_retries ?cfg = 5" "cfg_delay ?cfg = 1 / 2"
    by (simp_all add: setup_retry_def)
  have z: "arg_max_retries ?zero = Some 0" "arg_delay ?zero = Some 0"
    and g: "arg_max_retries ?given = Some 7 \<and> (7::int) \<noteq> 0"
      "arg_delay ?given = Some 3 \<and> (3::real) \<noteq> 0"
    by simp_all
  from falsy_override_takes_default [of ?zero ?cfg] z cfg
  have "max_retries (retry ?zero ?cfg) = 5" "delay (retry ?zero ?cfg) = 1 / 2"
    by simp_all
  moreover from falsy_override_takes_default [of ?given ?cfg] g
  have "max_retries (retry ?given ?cfg) = 7" "delay (retry ?given ?cfg) = 3"
    by blast+
  ultimately show ?thesis by simp
qed

lemma closures_setup [simp]: "closures (fold do_setup_retry ups s) = closures s"
  by (induction ups arbitrary: s) (simp_all add: do_setup_retry_def)

text \<open>
  C5: calls of \<^verbatim>\<open>setup_retry\<close> made after a wrapper is built, however many, leave its
  closure (so its \<^verbatim>\<open>max_retries\<close> and \<^verbatim>\<open>delay\<close>) and the outcome of every later call
  of it unchanged: the wrapper built by \<^verbatim>\<open>retry\<close> keeps the policy resolved from the
  dictionary as it was at construction.
\<close>

theorem setup_retry_leaves_built_wrappers:
  assumes "h < length (closures s)"
  shows "closures (fold do_setup_retry ups s) ! h = closures s ! h
    \<and> call_wrapper h env (fold do_setup_retry ups s) = call_wrapper h env s
    \<and> call_wrapper h env s = Some (wrapper (closures s ! h) env)
    \<and> closures (fold do_setup_retry ups (do_retry a s)) ! length (closures s)
        = retry a (config s)"
  using assms by (simp add: call_wrapper_def do_retry_def)

theorem setup_retry_leaves_built_wrappers_witness:
  "max_retries (closures (fold do_setup_retry [(Some 5, Some (1 / 2))]
      (do_retry no_args initial_state)) ! 0) = 3
   \<and> delay (closures (fold do_setup_retry [(Some 5, Some (1 / 2))]
      (do_retry no_args initial_state)) ! 0) = 1
   \<and> config (fold do_setup_retry [(Some 5, Some (1 / 2))] (do_retry no_args initial_state))
       = \<lparr>cfg_max_retries = 5, cfg_delay = 1 / 2\<rparr>"
proof -
  let ?s = "do_retry no_args initial_state"
  have h: "0 < length (closures ?s)"
    by (simp add: do_retry_def initial_state_def)
  have built: "closures ?s ! 0 = retry no_args DEFAULT_RETRY_CONFIG"
    by (simp add: do_retry_def initial_state_def)
  have p: "max_retries (retry no_args DEFAULT_RETRY_CONFIG) = 3"
    "delay (retry no_args DEFAULT_RETRY_CONFIG) = 1"
    by (simp_all add: retry_def no_args_def DEFAULT_RETRY_CONFIG_def py_or_def)
  have cfg: "config (fold do_setup_retry [(Some 5, Some (1 / 2))] ?s)
       = \<lparr>cfg_max_retries = 5, cfg_delay = 1 / 2\<rparr>"
    by (simp add: do_setup_retry_def do_retry_def initial_state_def setup_retry_def
        DEFAULT_RETRY_CONFIG_def)
  from setup_retry_leaves_built_wrappers [OF h, of "[(Some 5, Some (1 / 2))]"]
  have "closures (fold do_setup_retry [(Some 5, Some (1 / 2))] ?s) ! 0
      = retry no_args DEFAULT_RETRY_CONFIG"
    unfolding built by blast
  then show ?thesis
    using p cfg by simp
qed

subsection \<open>The cut-off by \<^verbatim>\<open>max_duration\<close>\<close>



subsection \<open>The warning of \<^verbatim>\<open>alert_threshold\<close>\<close>


lemma duration_exceeded_alert_update [simp]:
  "duration_exceeded (p\<lparr>alert_threshold := t\<rparr>) env st i = duration_exceeded p env st i"
  by (simp add: duration_exceeded_def)

lemma alert_events_unset [simp]: "alert_events (p\<lparr>alert_threshold := None\<rparr>) i = []"
  by (simp add: alert_events_def)

lemma attempts_without_threshold:
  "attempts (p\<lparr>alert_threshold := None\<rparr>) env st cd xs =
     (fst (attempts p env st cd xs),
      filter (\<lambda>x. \<not> is_warning (snd x)) (snd (attempts p env st cd xs)))"
proof (induction xs arbitrary: cd)
  case Nil
  then show ?case by simp
next
  case (Cons j rest)
  show ?case
    by (simp add: Cons.IH split: sum.splits prod.splits option.splits)
qed




subsection \<open>The default of \<^verbatim>\<open>exceptions\<close>\<close>

lemma issubclass_refl [simp]: "issubclass c c"
  by (cases c) simp_all

text \<open>
  C8, as the code has it: when \<^verbatim>\<open>exceptions\<close> is left out, the wrapper catches
  \<^verbatim>\<open>(Exception,)\<close>: an exception is retried exactly when its class is \<^verbatim>\<open>Exception\<close>
  or derives from it. The classes that derive from \<^verbatim>\<open>BaseException\<close> only
  (\<^verbatim>\<open>KeyboardInterrupt\<close>, \<^verbatim>\<open>SystemExit\<close>, \<^verbatim>\<open>GeneratorExit\<close>) are not caught.
\<close>

theorem default_exceptions_catch_Exception_only:
  assumes "arg_exceptions a = None"
  shows "exceptions (retry a cfg) = [Exception]
    \<and> isinstance e (exceptions (retry a cfg)) = issubclass (class_of e) Exception"
  using assms by (simp add: retry_def isinstance_def)

theorem default_exceptions_catch_Exception_only_witness:
  "isinstance (Exn (Subclass ''TimeoutError'' OSError) ''timed out'')
     (exceptions (retry no_args DEFAULT_RETRY_CONFIG))
   \<and> \<not> isinstance (Exn SystemExit ''0'') (exceptions (retry no_args DEFAULT_RETRY_CONFIG))"
proof -
  have h: "arg_exceptions no_args = None"
    by (simp add: no_args_def)
  note caught = default_exceptions_catch_Exception_only [OF h, of DEFAULT_RETRY_CONFIG, THEN conjunct2]
  show ?thesis
    unfolding caught by simp
qed

text \<open>
  C8 as stated fails: under the default configuration a \<^verbatim>\<open>KeyboardInterrupt\<close> raised
  by the operation is not caught; it propagates from the first attempt, with no retry.
\<close>

theorem default_catches_all_counterexample:
  "arg_exceptions no_args = None
   \<and> \<not> isinstance (Exn KeyboardInterrupt []) (exceptions (retry no_args DEFAULT_RETRY_CONFIG))
   \<and> wrapper (retry no_args DEFAULT_RETRY_CONFIG) interrupted
       = (Inl (Exn KeyboardInterrupt []), [(1, Invoked)])"
  by (simp add: no_args_def retry_def isinstance_def wrapper_def interrupted_def exact_platform_def
      DEFAULT_RETRY_CONFIG_def py_or_def upto.simps)

subsection \<open>Values of \<^verbatim>\<open>max_retries\<close> below 1\<close>

text \<open>
  C9: \<^verbatim>\<open>max_retries >= 1\<close> is not enforced. When the caller passes a non-falsy
  \<^verbatim>\<open>max_retries\<close> less than 1 (a negative integer), it is taken as it is and the
  loop body never runs: the wrapped call returns \<^verbatim>\<open>None\<close>, never invokes the
  operation, never sleeps, reports nothing and raises nothing.
\<close>

theorem max_retries_below_one_returns_None:
  assumes "arg_max_retries a = Some m" and "m \<noteq> 0" and "m < 1"
  shows "max_retries (retry a cfg) = m
    \<and> wrapper (retry a cfg) env = (Inr None, [])
    \<and> invocations (snd (wrapper (retry a cfg) env)) = 0
    \<and> sleeps (snd (wrapper (retry a cfg) env)) = []
    \<and> messages (snd (wrapper (retry a cfg) env)) = []"
proof -
  have mr: "max_retries (retry a cfg) = m"
    using assms by (simp add: retry_def py_or_def)
  then have w: "wrapper (retry a cfg) env = (Inr None, [])"
    using assms(3) by (simp add: wrapper_def)
  show ?thesis
    by (simp add: mr w invocations_def sleeps_def messages_def)
qed

theorem max_retries_below_one_returns_None_witness:
  "max_retries (retry (no_args\<lparr>arg_max_retries := Some (- 1)\<rparr>) DEFAULT_RETRY_CONFIG) = - 1
   \<and> wrapper (retry (no_args\<lparr>arg_max_retries := Some (- 1)\<rparr>) DEFAULT_RETRY_CONFIG)
         always_failing = (Inr None, [])"
proof -
  let ?a = "no_args\<lparr>arg_max_retries := Some (- 1)\<rparr>"
  have h1: "arg_max_retries ?a = Some (- 1)" by simp
  have h2: "(- 1 :: int) \<noteq> 0" and h3: "(- 1 :: int) < 1" by simp_all
  from max_retries_below_one_returns_None [OF h1 h2 h3, of DEFAULT_RETRY_CONFIG always_failing]
  show ?thesis by simp
qed

subsection \<open>Zero for \<^verbatim>\<open>max_duration\<close> and \<^verbatim>\<open>alert_threshold\<close>\<close>

lemma duration_exceeded_zero [simp]:
  "duration_exceeded (p\<lparr>max_duration := Some 0\<rparr>) env st i = False"
  "duration_exceeded (p\<lparr>max_duration := None\<rparr>) env st i = False"
  by (simp_all add: duration_exceeded_def)

lemma alert_events_max_duration_update [simp]:
  "alert_events (p\<lparr>max_duration := m\<rparr>) i = alert_events p i"
  by (simp add: alert_events_def)

lemma alert_events_zero [simp]: "alert_events (p\<lparr>alert_threshold := Some 0\<rparr>) i = []"
  by (simp add: alert_events_def)

lemma attempts_max_duration_zero:
  "attempts (p\<lparr>max_duration := Some 0\<rparr>) env st cd xs
     = attempts (p\<lparr>max_duration := None\<rparr>) env st cd xs"
  by (induction xs arbitrary: cd) (simp_all split: sum.splits option.splits)

lemma attempts_alert_threshold_zero:
  "attempts (p\<lparr>alert_threshold := Some 0\<rparr>) env st cd xs
     = attempts (p\<lparr>alert_threshold := None\<rparr>) env st cd xs"
  by (induction xs arbitrary: cd) (simp_all split: sum.splits option.splits)

text \<open>
  C10: \<^verbatim>\<open>max_duration\<close> and \<^verbatim>\<open>alert_threshold\<close> are tested for truth as well. An
  explicit 0 is kept by \<^verbatim>\<open>retry\<close> as it is, and the wrapper then behaves exactly as
  with \<^verbatim>\<open>None\<close>: \<^verbatim>\<open>max_duration = 0\<close> never cuts the retries off (the test of line
  151 is false whatever the clock reads), and \<^verbatim>\<open>alert_threshold = 0\<close> never warns.
\<close>

theorem zero_max_duration_and_alert_threshold_are_unset:
  "max_duration (retry (a\<lparr>arg_max_duration := Some 0\<rparr>) cfg) = Some 0
   \<and> alert_threshold (retry (a\<lparr>arg_alert_threshold := Some 0\<rparr>) cfg) = Some 0
   \<and> wrapper (p\<lparr>max_duration := Some 0\<rparr>) env = wrapper (p\<lparr>max_duration := None\<rparr>) env
   \<and> wrapper (p\<lparr>alert_threshold := Some 0\<rparr>) env = wrapper (p\<lparr>alert_threshold := None\<rparr>) env
   \<and> \<not> duration_exceeded (p\<lparr>max_duration := Some 0\<rparr>) env st i
   \<and> filter (\<lambda>x. is_warning (snd x)) (snd (wrapper (p\<lparr>alert_threshold := Some 0\<rparr>) env)) = []"
proof -
  have "max_duration (retry (a\<lparr>arg_max_duration := Some 0\<rparr>) cfg) = Some 0"
    and "alert_threshold (retry (a\<lparr>arg_alert_threshold := Some 0\<rparr>) cfg) = Some 0"
    by (simp_all add: retry_def)
  moreover have md: "wrapper (p\<lparr>max_duration := Some 0\<rparr>) env = wrapper (p\<lparr>max_duration := None\<rparr>) env"
    by (simp add: wrapper_def attempts_max_duration_zero)
  moreover have at: "wrapper (p\<lparr>alert_threshold := Some 0\<rparr>) env = wrapper (p\<lparr>alert_threshold := None\<rparr>) env"
    by (simp add: wrapper_def attempts_alert_threshold_zero)
  moreover have "filter (\<lambda>x. is_warning (snd x)) (snd (wrapper (p\<lparr>alert_threshold := Some 0\<rparr>) env)) = []"
  proof -
    let ?z = "p\<lparr>alert_threshold := Some 0\<rparr>"
    let ?tr = "snd (attempts ?z env (time_time env 0) (delay p) [1..max_retries p])"
    have "?tr = snd (attempts (?z\<lparr>alert_threshold := None\<rparr>) env (time_time env 0) (delay p)
        [1..max_retries p])"
      by (simp add: attempts_alert_threshold_zero)
    also have "\<dots> = filter (\<lambda>x. \<not> is_warning (snd x)) ?tr"
      by (subst attempts_without_threshold) simp
    finally have "filter (\<lambda>x. \<not> is_warning (snd x)) ?tr = ?tr" by simp
    then show ?thesis
      unfolding wrapper_def by (simp add: filter_id_conv filter_empty_conv)
  qed
  ultimately show ?thesis by simp
qed

theorem zero_max_duration_and_alert_threshold_are_unset_witness:
  "wrapper ((retry alerting DEFAULT_RETRY_CONFIG)\<lparr>max_duration := Some 0\<rparr>) always_failing =
     wrapper (retry alerting DEFAULT_RETRY_CONFIG) always_failing
   \<and> invocations
        (snd (wrapper ((retry alerting DEFAULT_RETRY_CONFIG)\<lparr>max_duration := Some 0\<rparr>) always_failing)) = 5"
proof -
  let ?p = "retry alerting DEFAULT_RETRY_CONFIG"
  have "?p\<lparr>max_duration := None\<rparr> = ?p"
    by (simp add: alerting_policy)
  with zero_max_duration_and_alert_threshold_are_unset [of _ _ ?p always_failing]
  have "wrapper (?p\<lparr>max_duration := Some 0\<rparr>) always_failing = wrapper ?p always_failing"
    by simp
  then show ?thesis
    by (simp add: alerting_run invocations_def)
qed

end
